theory Spec2Isabelle
  imports Complex_Main "HOL-Library.Log_Nat"
begin

section \<open>Images\<close>

text \<open>
  Every image the script handles has been converted to mode RGBA by \<open>open_image_auto\<close>.
  An image is its size and the sequence \<open>getdata()\<close> yields: the pixels in row-major
  order, each a tuple \<open>(r, g, b, a)\<close> of channel values.
\<close>

type_synonym rgb = "nat \<times> nat \<times> nat"

type_synonym pixel = "nat \<times> nat \<times> nat \<times> nat"

record img =
  img_w :: int
  img_h :: int
  img_data :: "pixel list"

fun alpha_of :: "pixel \<Rightarrow> nat" where
  "alpha_of (r, g, b, a) = a"

fun rgb_of :: "pixel \<Rightarrow> rgb" where
  "rgb_of (r, g, b, a) = (r, g, b)"

section \<open>recolor_to_white\<close>

text \<open>
  The body of the loop of \<open>recolor_to_white\<close>: a fully transparent pixel is appended as it
  is, any other pixel is appended as white with its own alpha.
\<close>

fun recolor_pixel :: "pixel \<Rightarrow> pixel" where
  "recolor_pixel (r, g, b, a) = (if a = 0 then (r, g, b, a) else (255, 255, 255, a))"

text \<open>
  \<open>new_data\<close> collects one pixel per pixel of \<open>getdata()\<close>, in order, and \<open>putdata\<close>
  stores it back into the copy; the size is untouched.
\<close>

definition recolor_to_white :: "img \<Rightarrow> img" where
  "recolor_to_white logo = logo\<lparr>img_data := map recolor_pixel (img_data logo)\<rparr>"

section \<open>Python errors\<close>

datatype py_error = ZeroDivisionError | TypeError | ValueError | KeyError | OverflowError

section \<open>Python floats\<close>

text \<open>
  A Python float is an IEEE 754 binary64 number. It is represented here by its exact
  rational value, and every arithmetic operation returns the exact result rounded to 53
  significant bits, ties to even (\<open>rnd\<close>). The exponent is unbounded in this model:
  overflow to infinity and the subnormal range are outside it, and the theorems on
  \<open>fit_logo\<close> bound their integer operands so that neither is reached.
\<close>

type_synonym double = rat

text \<open>\<open>expo x\<close> is the binary exponent of \<open>x\<close>: \<open>2 powi expo x \<le> \<bar>x\<bar> < 2 powi (expo x + 1)\<close>.\<close>

definition expo :: "rat \<Rightarrow> int" where
  "expo x = (let (p, q) = quotient_of \<bar>x\<bar>; e = bitlen p - bitlen q
             in if 2 powi e \<le> \<bar>x\<bar> then e else e - 1)"

definition round_even :: "rat \<Rightarrow> int" where
  "round_even m = (let f = \<lfloor>m\<rfloor>; d = m - of_int f in
      if d < 1 / 2 then f else if 1 / 2 < d then f + 1 else if even f then f else f + 1)"

definition rnd :: "rat \<Rightarrow> double" where
  "rnd x = (if x = 0 then 0
            else let e = expo x - 52 in of_int (round_even (x / 2 powi e)) * 2 powi e)"

text \<open>A decimal literal of the source denotes the nearest float.\<close>

definition lit :: "rat \<Rightarrow> double" where
  "lit q = rnd q"

text \<open>An \<open>int\<close> operand of a mixed operation is converted to the nearest float first.\<close>

definition float_of_int :: "int \<Rightarrow> double" where
  "float_of_int n = rnd (of_int n)"

definition fadd :: "double \<Rightarrow> double \<Rightarrow> double" where
  "fadd a b = rnd (a + b)"

definition fmul :: "double \<Rightarrow> double \<Rightarrow> double" where
  "fmul a b = rnd (a * b)"

text \<open>Float division and \<open>int / int\<close> raise \<open>ZeroDivisionError\<close> on a zero divisor.\<close>

definition fdiv :: "double \<Rightarrow> double \<Rightarrow> py_error + double" where
  "fdiv a b = (if b = 0 then Inl ZeroDivisionError else Inr (rnd (a / b)))"

definition int_truediv :: "int \<Rightarrow> int \<Rightarrow> py_error + double" where
  "int_truediv a b = (if b = 0 then Inl ZeroDivisionError else Inr (rnd (of_int a / of_int b)))"

text \<open>Division by a float literal that is not zero cannot raise.\<close>

definition fdiv_lit :: "double \<Rightarrow> rat \<Rightarrow> double" where
  "fdiv_lit a q = rnd (a / lit q)"

text \<open>\<open>int(x)\<close> truncates towards zero.\<close>

definition int_of_float :: "double \<Rightarrow> int" where
  "int_of_float x = (if 0 \<le> x then \<lfloor>x\<rfloor> else \<lceil>x\<rceil>)"

text \<open>
  \<open>x ** y\<close> on floats calls the C library's \<open>pow\<close>, which is not correctly rounded and
  is therefore a parameter \<open>P\<close> of the model; Python (as C99) fixes \<open>x ** 0.0 = 1.0\<close> and
  \<open>1.0 ** y = 1.0\<close> before the library is consulted.
\<close>

definition float_pow :: "(double \<Rightarrow> double \<Rightarrow> double) \<Rightarrow> double \<Rightarrow> double \<Rightarrow> double" where
  "float_pow P x y = (if y = 0 then 1 else if x = 1 then 1 else P x y)"

section \<open>relative_luminance and contrast_ratio\<close>

definition channel :: "(double \<Rightarrow> double \<Rightarrow> double) \<Rightarrow> nat \<Rightarrow> double" where
  "channel P c0 =
     (let c = fdiv_lit (float_of_int (int c0)) 255
      in if c \<le> lit (3928 / 100000) then fdiv_lit c (1292 / 100)
         else float_pow P (fdiv_lit (fadd c (lit (55 / 1000))) (1055 / 1000)) (lit (24 / 10)))"

fun relative_luminance :: "(double \<Rightarrow> double \<Rightarrow> double) \<Rightarrow> rgb \<Rightarrow> double" where
  "relative_luminance P (r, g, b) =
     fadd (fadd (fmul (lit (2126 / 10000)) (channel P r)) (fmul (lit (7152 / 10000)) (channel P g)))
          (fmul (lit (722 / 10000)) (channel P b))"

definition contrast_ratio :: "(double \<Rightarrow> double \<Rightarrow> double) \<Rightarrow> rgb \<Rightarrow> rgb \<Rightarrow> py_error + double" where
  "contrast_ratio P rgb1 rgb2 =
     (let L1 = relative_luminance P rgb1;
          L2 = relative_luminance P rgb2;
          (L1', L2') = (max L1 L2, min L1 L2)
      in fdiv (fadd L1' (lit (5 / 100))) (fadd L2' (lit (5 / 100))))"

section \<open>fit_logo\<close>

text \<open>
  The size \<open>fit_logo\<close> asks \<open>resize\<close> for. \<open>target / w\<close> is evaluated before \<open>target / h\<close>;
  either raises on a zero side.
\<close>

definition fit_logo_target :: "int \<Rightarrow> double \<Rightarrow> int" where
  "fit_logo_target canvas_size max_ratio = int_of_float (fmul (float_of_int canvas_size) max_ratio)"

definition fit_logo_scale :: "int \<Rightarrow> int \<Rightarrow> int \<Rightarrow> py_error + double" where
  "fit_logo_scale target w h =
     (case int_truediv target w of
        Inl e \<Rightarrow> Inl e
      | Inr a \<Rightarrow> (case int_truediv target h of Inl e \<Rightarrow> Inl e | Inr b \<Rightarrow> Inr (min a b)))"

definition fit_logo_size :: "int \<times> int \<Rightarrow> int \<Rightarrow> double \<Rightarrow> py_error + int \<times> int" where
  "fit_logo_size sz canvas_size max_ratio =
     (let target = fit_logo_target canvas_size max_ratio; (w, h) = sz
      in case fit_logo_scale target w h of
           Inl e \<Rightarrow> Inl e
         | Inr scale \<Rightarrow>
             Inr (max 1 (int_of_float (fmul (float_of_int w) scale)),
                  max 1 (int_of_float (fmul (float_of_int h) scale))))"

text \<open>
  \<open>Image.resize\<close> returns an image of the size it is asked for; the pixel values are the
  work of the library's LANCZOS filter, the parameter \<open>R\<close>. The sides are passed on as C
  integers: a side of \<open>2 ^ 31\<close> or more raises \<open>OverflowError\<close>. (\<open>fit_logo\<close> asks for
  sides of at least 1.)
\<close>

type_synonym resampler = "img \<Rightarrow> int \<Rightarrow> int \<Rightarrow> pixel list"

definition resize :: "resampler \<Rightarrow> img \<Rightarrow> int \<times> int \<Rightarrow> py_error + img" where
  "resize R im sz =
     (case sz of (w, h) \<Rightarrow>
        if 2 ^ 31 \<le> w \<or> 2 ^ 31 \<le> h then Inl OverflowError
        else Inr \<lparr>img_w = w, img_h = h, img_data = R im w h\<rparr>)"

definition fit_logo :: "resampler \<Rightarrow> img \<Rightarrow> int \<Rightarrow> double \<Rightarrow> py_error + img" where
  "fit_logo R logo canvas_size max_ratio =
     (case fit_logo_size (img_w logo, img_h logo) canvas_size max_ratio of
        Inl e \<Rightarrow> Inl e
      | Inr sz \<Rightarrow> resize R logo sz)"

text \<open>The fill ratio \<open>make_card\<close> passes to \<open>fit_logo\<close>: the literal 0.62.\<close>

definition card_max_ratio :: double where
  "card_max_ratio = lit (62 / 100)"

section \<open>dominant_color\<close>

text \<open>
  \<open>thumbnail((64, 64), LANCZOS)\<close> leaves an image that fits the box as it is. A larger
  image is replaced by a smaller one that the library computes: its size keeps the aspect
  ratio within the box and its pixels come from the LANCZOS filter. That reduction is the
  parameter \<open>K\<close>.
\<close>

type_synonym shrinker = "img \<Rightarrow> img"

definition thumbnail :: "shrinker \<Rightarrow> img \<Rightarrow> img" where
  "thumbnail K im = (if img_w im \<le> 64 \<and> img_h im \<le> 64 then im else K im)"

text \<open>
  The dictionary \<open>histogram\<close> keeps its keys in the order of their first insertion:
  \<open>histogram[key] = histogram.get(key, 0) + 1\<close>.
\<close>

fun bump :: "(rgb \<times> nat) list \<Rightarrow> rgb \<Rightarrow> (rgb \<times> nat) list" where
  "bump [] key = [(key, 1)]"
| "bump ((k, n) # h) key = (if k = key then (k, n + 1) # h else (k, n) # bump h key)"

fun count_pixel :: "(rgb \<times> nat) list \<Rightarrow> pixel \<Rightarrow> (rgb \<times> nat) list" where
  "count_pixel h (r, g, b, a) =
     (if a < 10 then h
      else if r > 240 \<and> g > 240 \<and> b > 240 then h
      else bump h (r, g, b))"

text \<open>\<open>max(items, key=...)\<close> keeps the first item of the largest count, and raises on no item.\<close>

fun max_by_count :: "rgb \<times> nat \<Rightarrow> (rgb \<times> nat) list \<Rightarrow> rgb \<times> nat" where
  "max_by_count best [] = best"
| "max_by_count best (kv # kvs) =
     (if snd best < snd kv then max_by_count kv kvs else max_by_count best kvs)"

definition py_max :: "(rgb \<times> nat) list \<Rightarrow> py_error + rgb \<times> nat" where
  "py_max items = (case items of [] \<Rightarrow> Inl ValueError | kv # kvs \<Rightarrow> Inr (max_by_count kv kvs))"

definition dominant_color :: "shrinker \<Rightarrow> img \<Rightarrow> py_error + rgb" where
  "dominant_color K im =
     (let small = thumbnail K im;
          histogram = foldl count_pixel [] (img_data small)
      in if histogram = [] then Inr (245, 245, 245)
         else (case py_max histogram of Inl e \<Rightarrow> Inl e | Inr kv \<Rightarrow> Inr (fst kv)))"

text \<open>The pixels the loop counts: alpha at least 10, and not all three channels above 240.\<close>

fun counted :: "pixel \<Rightarrow> bool" where
  "counted (r, g, b, a) = (\<not> a < 10 \<and> \<not> (r > 240 \<and> g > 240 \<and> b > 240))"

section \<open>slugify\<close>

text \<open>
  A Python \<open>str\<close> is a sequence of Unicode code points. For the code points of ASCII the
  character classes and the lower-case mapping are written out; for the others they are
  tables of the interpreter's Unicode database, the parameter \<open>U\<close>: which code points
  \<open>str.strip\<close> and \<open>\s\<close> count as white space, which \<open>\w\<close> counts as alphanumeric, and
  what \<open>str.lower\<close> puts for a code point beyond ASCII at its place in the string (one
  code point or several; for the capital sigma its neighbours decide). The letters A to Z
  are lowered in every string.
\<close>

type_synonym ustring = "nat list"

record unicode_db =
  u_space :: "nat \<Rightarrow> bool"
  u_alnum :: "nat \<Rightarrow> bool"
  u_lower :: "ustring \<Rightarrow> nat \<Rightarrow> ustring"

definition ustr :: "string \<Rightarrow> ustring" where
  "ustr s = map of_char s"

definition ascii_space :: "nat \<Rightarrow> bool" where
  "ascii_space c = ((9 \<le> c \<and> c \<le> 13) \<or> (28 \<le> c \<and> c \<le> 32))"

definition ascii_alnum :: "nat \<Rightarrow> bool" where
  "ascii_alnum c = ((48 \<le> c \<and> c \<le> 57) \<or> (65 \<le> c \<and> c \<le> 90) \<or> (97 \<le> c \<and> c \<le> 122))"

definition ascii_lower :: "nat \<Rightarrow> nat" where
  "ascii_lower c = (if 65 \<le> c \<and> c \<le> 90 then c + 32 else c)"

definition is_space :: "unicode_db \<Rightarrow> nat \<Rightarrow> bool" where
  "is_space U c = (if c < 128 then ascii_space c else u_space U c)"

text \<open>\<open>\w\<close>: alphanumeric, or the underscore.\<close>

definition is_word :: "unicode_db \<Rightarrow> nat \<Rightarrow> bool" where
  "is_word U c = ((if c < 128 then ascii_alnum c else u_alnum U c) \<or> c = 95)"

definition strip :: "unicode_db \<Rightarrow> ustring \<Rightarrow> ustring" where
  "strip U s = rev (dropWhile (is_space U) (rev (dropWhile (is_space U) s)))"

definition lower :: "unicode_db \<Rightarrow> ustring \<Rightarrow> ustring" where
  "lower U s =
     concat (map (\<lambda>i. if s ! i < 128 then [ascii_lower (s ! i)] else u_lower U s i)
       [0..<length s])"

text \<open>\<open>re.sub(r"[^\w\s-]", "", value)\<close> deletes every character outside the three classes.\<close>

definition drop_other :: "unicode_db \<Rightarrow> ustring \<Rightarrow> ustring" where
  "drop_other U s = filter (\<lambda>c. is_word U c \<or> is_space U c \<or> c = 45) s"

text \<open>\<open>re.sub(r"[\s]+", "_", value)\<close> replaces every maximal run of white space by one underscore.\<close>

function collapse_space :: "unicode_db \<Rightarrow> ustring \<Rightarrow> ustring" where
  "collapse_space U [] = []"
| "collapse_space U (c # cs) =
     (if is_space U c then 95 # collapse_space U (dropWhile (is_space U) cs)
      else c # collapse_space U cs)"
  by pat_completeness auto
termination
  by (relation "measure (\<lambda>(U, s). length s)") (auto simp: length_dropWhile_le le_imp_less_Suc)

definition slugify :: "unicode_db \<Rightarrow> ustring \<Rightarrow> ustring" where
  "slugify U value0 =
     (let value1 = lower U (strip U value0);
          value2 = drop_other U value1;
          value3 = collapse_space U value2
      in if value3 = [] then ustr ''brand'' else value3)"

text \<open>
  The slug the specification describes: lower-case letters, digits and underscores only,
  and no underscore first or last.
\<close>

definition slug_as_specified :: "ustring \<Rightarrow> bool" where
  "slug_as_specified s =
     ((\<forall>c \<in> set s. (97 \<le> c \<and> c \<le> 122) \<or> (48 \<le> c \<and> c \<le> 57) \<or> c = 95) \<and>
      (s \<noteq> [] \<longrightarrow> hd s \<noteq> 95 \<and> last s \<noteq> 95))"

section \<open>The imaging library\<close>

text \<open>
  What \<open>make_card\<close> needs of the imaging library beyond the float power \<open>P\<close>, the
  LANCZOS resampler \<open>R\<close> and the reduction \<open>K\<close>: the rasteriser of
  \<open>ImageDraw.rounded_rectangle\<close>, which gives the mask values of a canvas for a radius;
  the mix of two channel values under a mask value strictly between 0 and 255; and the
  per-band means that \<open>ImageStat\<close> derives from a histogram.
\<close>

record lib =
  lib_pow :: "double \<Rightarrow> double \<Rightarrow> double"
  lib_lanczos :: resampler
  lib_reduce :: shrinker
  lib_rounded :: "int \<times> int \<Rightarrow> int \<Rightarrow> nat list"
  lib_mix :: "nat \<Rightarrow> nat \<Rightarrow> nat \<Rightarrow> nat"
  lib_mean :: "nat list \<Rightarrow> py_error + double list"

text \<open>\<open>Image.new\<close>: every pixel has the given value; a negative side is refused.\<close>

definition new_image :: "int \<times> int \<Rightarrow> pixel \<Rightarrow> py_error + img" where
  "new_image sz colour =
     (case sz of (w, h) \<Rightarrow>
        if w < 0 \<or> h < 0 then Inl ValueError
        else Inr \<lparr>img_w = w, img_h = h, img_data = replicate (nat (w * h)) colour\<rparr>)"

text \<open>
  \<open>paste(src, (x, y), mask)\<close>: inside the box of \<open>src\<close> at \<open>(x, y)\<close>, a mask value of 255
  copies the pixel of \<open>src\<close>, a mask value of 0 keeps the pixel of the target, and a value
  in between mixes the two, channel by channel. Outside the box nothing changes.
\<close>

fun mix_pixel :: "(nat \<Rightarrow> nat \<Rightarrow> nat \<Rightarrow> nat) \<Rightarrow> nat \<Rightarrow> pixel \<Rightarrow> pixel \<Rightarrow> pixel" where
  "mix_pixel M m (r, g, b, a) (r', g', b', a') =
     (if m = 0 then (r, g, b, a)
      else if m = 255 then (r', g', b', a')
      else (M m r r', M m g g', M m b b', M m a a'))"

definition paste :: "(nat \<Rightarrow> nat \<Rightarrow> nat \<Rightarrow> nat) \<Rightarrow> img \<Rightarrow> img \<Rightarrow> int \<times> int \<Rightarrow> nat list \<Rightarrow> img" where
  "paste M dst src pos msk =
     (case pos of (x, y) \<Rightarrow>
        dst\<lparr>img_data :=
          map (\<lambda>i. let u = int i mod img_w dst - x; v = int i div img_w dst - y
                    in if 0 \<le> u \<and> u < img_w src \<and> 0 \<le> v \<and> v < img_h src
                       then mix_pixel M (msk ! nat (v * img_w src + u)) (img_data dst ! i)
                              (img_data src ! nat (v * img_w src + u))
                       else img_data dst ! i)
              [0..<length (img_data dst)]\<rparr>)"

text \<open>\<open>split()\<close> returns a tuple of the four bands.\<close>

definition split :: "img \<Rightarrow> nat list list" where
  "split im =
     [map (\<lambda>(r, g, b, a). r) (img_data im), map (\<lambda>(r, g, b, a). g) (img_data im),
      map (\<lambda>(r, g, b, a). b) (img_data im), map (\<lambda>(r, g, b, a). a) (img_data im)]"

text \<open>
  The histogram of an image: 256 counts for each band, band after band.
\<close>

definition histogram_of :: "img \<Rightarrow> nat list" where
  "histogram_of im = concat (map (\<lambda>band. map (count_list band) [0..<256]) (split im))"

text \<open>
  \<open>ImageStat.Stat(image_or_list)\<close> takes an image, whose histogram it computes, or a
  histogram as a list. Any other argument raises
  \<open>TypeError("first argument must be image or list")\<close>. The three kinds of argument:
\<close>

datatype stat_arg = An_image img | A_list "nat list" | A_tuple "nat list list"

fun image_stat :: "stat_arg \<Rightarrow> py_error + nat list" where
  "image_stat (An_image im) = Inr (histogram_of im)"
| "image_stat (A_list h) = Inr h"
| "image_stat (A_tuple bands) = Inl TypeError"

text \<open>
  \<open>rounded_mask\<close> draws the rounded rectangle on a black canvas;
  \<open>ImageDraw.rounded_rectangle\<close> refuses a negative radius with \<open>ValueError\<close>.
\<close>

definition rounded_mask :: "lib \<Rightarrow> int \<times> int \<Rightarrow> int \<Rightarrow> py_error + nat list" where
  "rounded_mask L sz radius =
     (if radius < 0 then Inl ValueError else Inr (lib_rounded L sz radius))"

section \<open>make_card\<close>

text \<open>
  The card that \<open>make_card\<close> saves at \<open>out_path\<close>, or the exception it raises.
  \<open>logo.split()[0:3]\<close>, the argument of \<open>ImageStat.Stat\<close>, is a tuple of three bands.
  \<open>contrast_ratio\<close> unpacks its first argument into exactly three channels.
\<close>

definition make_card :: "lib \<Rightarrow> img \<Rightarrow> rgb option \<Rightarrow> int \<Rightarrow> int \<Rightarrow> py_error + img" where
  "make_card L logo_img bg_opt canvas radius =
     (case (case bg_opt of None \<Rightarrow> dominant_color (lib_reduce L) logo_img | Some c \<Rightarrow> Inr c) of
        Inl e \<Rightarrow> Inl e
      | Inr bg_rgb \<Rightarrow>
     (case new_image (canvas, canvas) (0, 0, 0, 0) of
        Inl e \<Rightarrow> Inl e
      | Inr card0 \<Rightarrow>
     (case new_image (canvas, canvas) (case bg_rgb of (r, g, b) \<Rightarrow> (r, g, b, 255)) of
        Inl e \<Rightarrow> Inl e
      | Inr bg \<Rightarrow>
     (case rounded_mask L (canvas, canvas) radius of
        Inl e \<Rightarrow> Inl e
      | Inr msk \<Rightarrow>
     (let card1 = paste (lib_mix L) card0 bg (0, 0) msk
      in case fit_logo (lib_lanczos L) logo_img canvas card_max_ratio of
        Inl e \<Rightarrow> Inl e
      | Inr logo \<Rightarrow>
     (case image_stat (A_tuple (take 3 (split logo))) of
        Inl e \<Rightarrow> Inl e
      | Inr h \<Rightarrow>
     (case lib_mean L h of
        Inl e \<Rightarrow> Inl e
      | Inr mean \<Rightarrow>
     (case map int_of_float mean of
        [r, g, b] \<Rightarrow>
          (case contrast_ratio (lib_pow L) (nat r, nat g, nat b) bg_rgb of
             Inl e \<Rightarrow> Inl e
           | Inr cr \<Rightarrow>
               let logo' = (if cr < lit (25 / 10) then recolor_to_white logo else logo);
                   x = (canvas - img_w logo') div 2;
                   y = (canvas - img_h logo') div 2
               in Inr (paste (lib_mix L) card1 logo' (x, y) (map alpha_of (img_data logo'))))
      | _ \<Rightarrow> Inl ValueError))))))))"

section \<open>main\<close>

text \<open>
  A cell of the table that \<open>pd.read_excel\<close> returns is a text or missing, which pandas
  gives as the float \<open>nan\<close>: \<open>str\<close> of it is \<open>nan\<close>, and it counts as true.
\<close>

datatype cell = Text ustring | NaN

fun py_str :: "cell \<Rightarrow> ustring" where
  "py_str (Text s) = s"
| "py_str NaN = ustr ''nan''"

fun truthy :: "cell \<Rightarrow> bool" where
  "truthy (Text s) = (s \<noteq> [])"
| "truthy NaN = True"

record dataframe =
  df_columns :: "ustring list"
  df_rows :: "cell list list"

definition name_col :: ustring where
  "name_col = ustr ''Prek'' @ [279] @ ustr ''s '' @ [382] @ ustr ''enklas''"

definition bf_col :: ustring where
  "bf_col = ustr ''Brandfetch (logo)''"

definition cb_col :: ustring where
  "cb_col = ustr ''Clearbit (logo)''"

definition site_col :: ustring where
  "site_col = ustr ''Oficiali svetain'' @ [279]"

record args =
  arg_excel :: ustring
  arg_outdir :: ustring
  arg_zipname :: ustring
  arg_radius :: int

text \<open>
  The surroundings of a run: the imaging library, the Unicode database, what
  \<open>fetch_bytes\<close> returns for a URL (the body of the response, empty on any failure), what
  \<open>open_image_auto\<close> makes of the bytes, and the working directory.
\<close>

record world =
  w_lib :: lib
  w_unicode :: unicode_db
  w_fetch :: "ustring \<Rightarrow> nat list"
  w_open :: "nat list \<Rightarrow> py_error + img"
  w_cwd :: ustring

text \<open>What a run does that can be seen from outside, in order.\<close>

datatype event =
    Makedirs ustring
  | Print_missing "ustring list"
  | Request ustring
  | Print_skip ustring
  | Save_png ustring img
  | Print_ok ustring ustring
  | Print_err ustring py_error
  | Write_zip ustring "ustring list"
  | Print_summary nat ustring

datatype status = Returned | Exited int | Uncaught py_error

record run =
  trace :: "event list"
  status :: status

definition path_join :: "ustring \<Rightarrow> ustring \<Rightarrow> ustring" where
  "path_join a b =
     (if b \<noteq> [] \<and> hd b = 47 then b
      else if a = [] \<or> last a = 47 then a @ b
      else a @ [47] @ b)"

definition rstrip_slash :: "ustring \<Rightarrow> ustring" where
  "rstrip_slash s = rev (dropWhile (\<lambda>c. c = 47) (rev s))"

definition strip_slash :: "ustring \<Rightarrow> ustring" where
  "strip_slash s = rstrip_slash (dropWhile (\<lambda>c. c = 47) s)"

text \<open>\<open>str(row.get(col, "") or "").strip()\<close>\<close>

definition url_cell :: "unicode_db \<Rightarrow> cell option \<Rightarrow> ustring" where
  "url_cell U c =
     (let v = (case c of None \<Rightarrow> Text [] | Some v \<Rightarrow> v);
          v' = (if truthy v then v else Text [])
      in strip U (py_str v'))"

definition candidate_urls :: "unicode_db \<Rightarrow> (ustring \<Rightarrow> cell option) \<Rightarrow> ustring list" where
  "candidate_urls U row =
     (let bf_url = url_cell U (row bf_col);
          cb_url = url_cell U (row cb_col);
          site_url = url_cell U (row site_col)
      in (if bf_url \<noteq> [] then [bf_url] else []) @
         (if cb_url \<noteq> [] then [cb_url] else []) @
         (if site_url \<noteq> [] then
            [if take 4 site_url = ustr ''http'' then rstrip_slash site_url @ ustr ''/favicon.ico''
             else ustr ''https://'' @ rstrip_slash (strip_slash site_url) @ ustr ''/favicon.ico'']
          else []))"

text \<open>
  The loop over the candidate URLs: the requests made, and the first image that could be
  fetched and opened, with its URL.
\<close>

fun try_urls :: "world \<Rightarrow> ustring list \<Rightarrow> event list \<times> (img \<times> ustring) option" where
  "try_urls W [] = ([], None)"
| "try_urls W (u # us) =
     (let data = w_fetch W u
      in if data = [] then (case try_urls W us of (ev, r) \<Rightarrow> (Request u # ev, r))
         else (case w_open W data of
                 Inl e \<Rightarrow> (case try_urls W us of (ev, r) \<Rightarrow> (Request u # ev, r))
               | Inr im \<Rightarrow> ([Request u], Some (im, u))))"

text \<open>One brand: its events, and its entry of \<open>results\<close> if the card was made.\<close>

definition process_brand ::
  "world \<Rightarrow> args \<Rightarrow> (ustring \<Rightarrow> cell option) \<Rightarrow> ustring \<Rightarrow>
   event list \<times> (ustring \<times> ustring \<times> ustring) list" where
  "process_brand W A row brand =
     (let brand_slug = slugify (w_unicode W) brand;
          out_path = path_join (arg_outdir A) (brand_slug @ ustr ''.png'')
      in case try_urls W (candidate_urls (w_unicode W) row) of
           (ev, None) \<Rightarrow> (ev @ [Print_skip brand], [])
         | (ev, Some (logo_img, used_url)) \<Rightarrow>
             (case dominant_color (lib_reduce (w_lib W)) logo_img of
                Inl e \<Rightarrow> (ev @ [Print_err brand e], [])
              | Inr bg \<Rightarrow>
                  (case make_card (w_lib W) logo_img (Some bg) 600 (arg_radius A) of
                     Inl e \<Rightarrow> (ev @ [Print_err brand e], [])
                   | Inr saved \<Rightarrow>
                       (ev @ [Save_png out_path saved, Print_ok brand out_path],
                        [(brand, out_path, used_url)]))))"

text \<open>
  The loop over the rows. \<open>row[name_col]\<close> is outside any \<open>try\<close>: a row without that
  cell ends the run with \<open>KeyError\<close>.
\<close>

fun run_rows ::
  "world \<Rightarrow> args \<Rightarrow> ustring list \<Rightarrow> cell list list \<Rightarrow>
   event list \<times> (ustring \<times> ustring \<times> ustring) list \<times> py_error option" where
  "run_rows W A cols [] = ([], [], None)"
| "run_rows W A cols (cells # rest) =
     (let row = map_of (zip cols cells)
      in case row name_col of
           None \<Rightarrow> ([], [], Some KeyError)
         | Some c \<Rightarrow>
             (let brand = strip (w_unicode W) (py_str c)
              in if brand = [] \<or> lower (w_unicode W) brand = ustr ''nan''
                 then run_rows W A cols rest
                 else (case process_brand W A row brand of
                         (ev, res) \<Rightarrow>
                           (case run_rows W A cols rest of
                              (ev', res', err) \<Rightarrow> (ev @ ev', res @ res', err)))))"

definition expected_columns :: "ustring list" where
  "expected_columns = [name_col, bf_col, cb_col, site_col]"

definition main :: "world \<Rightarrow> args \<Rightarrow> dataframe \<Rightarrow> run" where
  "main W A df =
     (let missing = filter (\<lambda>c. c \<notin> set (df_columns df)) expected_columns
      in if missing \<noteq> [] then
           \<lparr>trace = [Makedirs (arg_outdir A), Print_missing missing], status = Exited 1\<rparr>
         else
           (case run_rows W A (df_columns df) (df_rows df) of
              (ev, results, Some e) \<Rightarrow>
                \<lparr>trace = Makedirs (arg_outdir A) # ev, status = Uncaught e\<rparr>
            | (ev, results, None) \<Rightarrow>
                (let zip_path = path_join (w_cwd W) (arg_zipname A)
                 in \<lparr>trace = Makedirs (arg_outdir A) # ev @
                        [Write_zip zip_path (map (\<lambda>(brand, out_path, url). out_path) results),
                         Print_summary (length results) zip_path],
                      status = Returned\<rparr>)))"

section \<open>Example inputs\<close>

text \<open>The logo of the end-to-end scenario: 100 by 100, opaque, solid red.\<close>

definition red_logo :: img where
  "red_logo = \<lparr>img_w = 100, img_h = 100, img_data = replicate 10000 (255, 0, 0, 255)\<rparr>"

text \<open>
  An instance of the reduction for the examples: a box filter that halves the width of an
  image of even width, each new pixel the mean of two neighbours in a row. The LANCZOS
  filter of the library weighs more neighbours; its pixels too are weighted means.
\<close>

fun pair_means :: "pixel list \<Rightarrow> pixel list" where
  "pair_means ((r1, g1, b1, a1) # (r2, g2, b2, a2) # ps) =
     ((r1 + r2) div 2, (g1 + g2) div 2, (b1 + b2) div 2, (a1 + a2) div 2) # pair_means ps"
| "pair_means ps = ps"

definition halve_width :: shrinker where
  "halve_width im = \<lparr>img_w = img_w im div 2, img_h = img_h im, img_data = pair_means (img_data im)\<rparr>"

text \<open>
  A second instance: the LANCZOS filter of the library where it halves the width of an
  image of one row. Each new pixel is the sum of twelve neighbours times the filter's
  weights, in the library's fixed point of 22 bits, rounded and clipped to a byte. At the
  two ends the library renormalises the weights that stay inside the row; this instance
  repeats the end pixel instead, which gives the same on a row whose ends are of one
  colour.
\<close>

definition lanczos_taps :: "int list" where
  "lanczos_taps =
     [15473, 63150, - 142601, - 279497, 568350, 1872276,
      1872276, 568350, - 279497, - 142601, 63150, 15473]"

definition clip8 :: "int \<Rightarrow> nat" where
  "clip8 v = (if v < 0 then 0 else if 255 < v then 255 else nat v)"

fun lanczos_windows :: "nat list \<Rightarrow> nat list" where
  "lanczos_windows (a # b # rest) =
     (if length rest < 10 then []
      else clip8 ((2 ^ 21 + sum_list (map2 (\<lambda>k v. k * int v) lanczos_taps (take 12 (a # b # rest))))
                  div 2 ^ 22)
           # lanczos_windows rest)"
| "lanczos_windows rest = []"

definition lanczos_band :: "nat list \<Rightarrow> nat list" where
  "lanczos_band band =
     (case band of
        [] \<Rightarrow> []
      | v # vs \<Rightarrow> lanczos_windows (replicate 5 v @ band @ replicate 6 (last band)))"

definition lanczos_halve :: shrinker where
  "lanczos_halve im =
     \<lparr>img_w = img_w im div 2, img_h = img_h im,
      img_data = (case map lanczos_band (split im) of
                    [r, g, b, a] \<Rightarrow> zip r (zip g (zip b a))
                  | bands \<Rightarrow> [])\<rparr>"

text \<open>A row of 128 white pixels, four of them (241, 241, 241): every one is near-white.\<close>

definition pale_row :: img where
  "pale_row = \<lparr>img_w = 128, img_h = 1,
                img_data = replicate 61 (255, 255, 255, 255) @ replicate 4 (241, 241, 241, 255) @
                           replicate 63 (255, 255, 255, 255)\<rparr>"

definition stripes :: img where
  "stripes = \<lparr>img_w = 128, img_h = 1,
               img_data = concat (replicate 64 [(0, 0, 0, 255), (200, 0, 0, 255)])\<rparr>"

definition two_alpha :: img where
  "two_alpha = \<lparr>img_w = 2, img_h = 1, img_data = [(10, 20, 30, 0), (10, 20, 30, 128)]\<rparr>"

definition two_tone :: img where
  "two_tone = \<lparr>img_w = 2, img_h = 1, img_data = [(10, 20, 30, 255), (255, 255, 255, 255)]\<rparr>"

definition blank :: img where
  "blank = \<lparr>img_w = 2, img_h = 1, img_data = [(12, 34, 56, 0), (255, 255, 255, 255)]\<rparr>"

text \<open>
  A database for the examples: no code point beyond ASCII is white space or alphanumeric,
  and lower-casing leaves those code points alone. It is the interpreter's database on
  every string whose only non-ASCII characters are symbols, the trade mark sign U+2122
  among them.
\<close>

definition symbols_db :: unicode_db where
  "symbols_db = \<lparr>u_space = (\<lambda>c. False), u_alnum = (\<lambda>c. False),
                  u_lower = (\<lambda>s i. [s ! i])\<rparr>"

definition coca_cola :: ustring where
  "coca_cola = ustr ''Coca-Cola'' @ [8482] @ ustr '' Lietuva!''"

text \<open>Two tables of one brand: the first lacks the column of the official site.\<close>

definition no_site_table :: dataframe where
  "no_site_table =
     \<lparr>df_columns = [name_col, bf_col, cb_col],
      df_rows = [[Text (ustr ''Acme''), Text (ustr ''https://cdn.example/acme.png''), NaN]]\<rparr>"

definition full_table :: dataframe where
  "full_table =
     \<lparr>df_columns = [name_col, site_col, bf_col, cb_col],
      df_rows = [[Text (ustr ''Acme''), Text (ustr ''acme.example/''),
                  Text (ustr ''https://cdn.example/acme.png''), NaN]]\<rparr>"

section \<open>Properties of recolor_to_white\<close>

lemma alpha_recolor_pixel: "alpha_of (recolor_pixel p) = alpha_of p"
  by (cases p) simp

lemma rgb_recolor_pixel_visible: "0 < alpha_of p \<Longrightarrow> rgb_of (recolor_pixel p) = (255, 255, 255)"
  by (cases p) simp

lemma recolor_pixel_transparent: "alpha_of p = 0 \<Longrightarrow> recolor_pixel p = p"
  by (cases p) simp

text \<open>
  Claim C4. \<open>recolor_to_white\<close> keeps the size and the number of pixels, and at every
  pixel position the alpha value is the input's; a pixel with alpha above 0 gets the
  colour (255, 255, 255), and a pixel with alpha 0 is returned as it was, colour
  included.
\<close>

theorem recolor_to_white_spec:
  "img_w (recolor_to_white logo) = img_w logo \<and>
   img_h (recolor_to_white logo) = img_h logo \<and>
   length (img_data (recolor_to_white logo)) = length (img_data logo) \<and>
   (\<forall>i < length (img_data logo).
      alpha_of (img_data (recolor_to_white logo) ! i) = alpha_of (img_data logo ! i) \<and>
      (0 < alpha_of (img_data logo ! i) \<longrightarrow>
         rgb_of (img_data (recolor_to_white logo) ! i) = (255, 255, 255)) \<and>
      (alpha_of (img_data logo ! i) = 0 \<longrightarrow>
         img_data (recolor_to_white logo) ! i = img_data logo ! i))"
  by (simp add: recolor_to_white_def alpha_recolor_pixel rgb_recolor_pixel_visible
      recolor_pixel_transparent)

theorem recolor_to_white_spec_witness:
  "img_data (recolor_to_white two_alpha) ! 0 = (10, 20, 30, 0) \<and>
   alpha_of (img_data (recolor_to_white two_alpha) ! 1) = 128 \<and>
   rgb_of (img_data (recolor_to_white two_alpha) ! 1) = (255, 255, 255)"
proof -
  have per_pixel: "\<forall>i < length (img_data two_alpha).
      alpha_of (img_data (recolor_to_white two_alpha) ! i) = alpha_of (img_data two_alpha ! i) \<and>
      (0 < alpha_of (img_data two_alpha ! i) \<longrightarrow>
         rgb_of (img_data (recolor_to_white two_alpha) ! i) = (255, 255, 255)) \<and>
      (alpha_of (img_data two_alpha ! i) = 0 \<longrightarrow>
         img_data (recolor_to_white two_alpha) ! i = img_data two_alpha ! i)"
    using recolor_to_white_spec [of two_alpha] by blast
  have d: "img_data two_alpha = [(10, 20, 30, 0), (10, 20, 30, 128)]"
    by (simp add: two_alpha_def)
  show ?thesis
    using per_pixel [rule_format, of 0] per_pixel [rule_format, of 1] by (simp add: d)
qed

section \<open>Rounding\<close>














section \<open>Properties of fit_logo\<close>




















section \<open>Properties of relative_luminance and contrast_ratio\<close>

text \<open>
  Claim C8. \<open>contrast_ratio\<close> is symmetric in its two colours, whatever the library's
  power function returns, the raised \<open>ZeroDivisionError\<close> included.
\<close>

theorem contrast_ratio_symmetric: "contrast_ratio P a b = contrast_ratio P b a"
  by (simp add: contrast_ratio_def Let_def max.commute min.commute)

lemma luminance_black: "relative_luminance P (0, 0, 0) = 0"
  by code_simp

lemma luminance_white: "relative_luminance P (255, 255, 255) = 1"
  by code_simp

text \<open>
  Claim C9. The relative luminance of black (0, 0, 0) is exactly the float 0.0 and that
  of white (255, 255, 255) is exactly the float 1.0, with every rounding of the float
  arithmetic taken into account: the weights 0.2126, 0.7152 and 0.0722, rounded to
  floats, add up to 1.0 exactly.
\<close>

theorem relative_luminance_black_white:
  "relative_luminance P (0, 0, 0) = 0 \<and> relative_luminance P (255, 255, 255) = 1"
  by (simp only: luminance_black luminance_white)

section \<open>Properties of dominant_color\<close>

lemma thumbnail_fits: "img_w im \<le> 64 \<Longrightarrow> img_h im \<le> 64 \<Longrightarrow> thumbnail K im = im"
  by (simp add: thumbnail_def)

lemma bump_keys: "fst ` set (bump h key) = insert key (fst ` set h)"
  by (induction h key rule: bump.induct) auto

lemma count_pixel_keys:
  "fst ` set (count_pixel h p) = (if counted p then insert (rgb_of p) (fst ` set h) else fst ` set h)"
  by (cases p) (simp add: bump_keys)

lemma histogram_keys:
  "fst ` set (foldl count_pixel h ps) = fst ` set h \<union> rgb_of ` {p \<in> set ps. counted p}"
  by (induction ps arbitrary: h) (auto simp: count_pixel_keys)

lemma max_by_count_mem: "max_by_count best kvs \<in> set (best # kvs)"
  by (induction best kvs rule: max_by_count.induct) auto

lemma dominant_color_key:
  assumes "foldl count_pixel [] ps \<noteq> []"
  shows "\<exists>p \<in> set ps. counted p \<and>
     (case py_max (foldl count_pixel [] ps) of Inl e \<Rightarrow> Inl e | Inr kv \<Rightarrow> Inr (fst kv)) = Inr (rgb_of p)"
proof -
  obtain kv kvs where h: "foldl count_pixel [] ps = kv # kvs"
    using assms by (cases "foldl count_pixel [] ps") auto
  have "max_by_count kv kvs \<in> set (foldl count_pixel [] ps)"
    unfolding h by (rule max_by_count_mem)
  then have "fst (max_by_count kv kvs) \<in> fst ` set (foldl count_pixel [] ps)"
    by (rule imageI)
  then have "fst (max_by_count kv kvs) \<in> rgb_of ` {p \<in> set ps. counted p}"
    by (simp add: histogram_keys)
  then show ?thesis by (auto simp: h py_max_def)
qed

lemma histogram_empty_iff: "foldl count_pixel [] ps = [] \<longleftrightarrow> (\<forall>p \<in> set ps. \<not> counted p)"
proof -
  have "foldl count_pixel [] ps = [] \<longleftrightarrow> fst ` set (foldl count_pixel [] ps) = {}"
    by simp
  also have "\<dots> \<longleftrightarrow> (\<forall>p \<in> set ps. \<not> counted p)"
    unfolding histogram_keys by (auto simp del: counted.simps)
  finally show ?thesis .
qed

text \<open>
  Claim C3, as amended. Whenever the thumbnail of the image holds a pixel with alpha at
  least 10 that is not near-white, \<open>dominant_color\<close> returns the colour of such a pixel of
  the thumbnail. An image of at most 64 by 64 pixels is its own thumbnail, so there the
  colour is that of one of the image's own pixels. (A larger image is resampled first, and
  the colour returned may be a blend that no pixel of the image has.)
\<close>

theorem dominant_color_is_thumbnail_pixel:
  assumes "\<exists>p \<in> set (img_data (thumbnail K im)). counted p"
  shows "(\<exists>p \<in> set (img_data (thumbnail K im)). counted p \<and> dominant_color K im = Inr (rgb_of p)) \<and>
         (img_w im \<le> 64 \<and> img_h im \<le> 64 \<longrightarrow> thumbnail K im = im)"
proof -
  have "foldl count_pixel [] (img_data (thumbnail K im)) \<noteq> []"
    using assms by (simp add: histogram_empty_iff)
  then show ?thesis
    using dominant_color_key [of "img_data (thumbnail K im)"]
    by (simp add: dominant_color_def Let_def thumbnail_fits)
qed

theorem dominant_color_is_thumbnail_pixel_witness:
  "\<forall>K. dominant_color K two_tone = Inr (10, 20, 30)"
proof
  fix K
  have t: "thumbnail K two_tone = two_tone" by (simp add: thumbnail_def two_tone_def)
  have "\<exists>p \<in> set (img_data (thumbnail K two_tone)). counted p"
    unfolding t by (simp add: two_tone_def)
  then have "\<exists>p \<in> set (img_data two_tone). counted p \<and> dominant_color K two_tone = Inr (rgb_of p)"
    using dominant_color_is_thumbnail_pixel [of K two_tone] unfolding t by simp
  then show "dominant_color K two_tone = Inr (10, 20, 30)"
    by (auto simp: two_tone_def)
qed

text \<open>
  The claim as stated fails on a larger image: 128 by 1, black and (200, 0, 0) pixels in
  turn. Its halved thumbnail is (100, 0, 0) throughout, which is returned and is the
  colour of no pixel of the image.
\<close>

theorem dominant_color_blend_counterexample:
  "(0, 0, 0, 255) \<in> set (img_data stripes) \<and> counted (0, 0, 0, 255) \<and>
   dominant_color halve_width stripes = Inr (100, 0, 0) \<and>
   (100, 0, 0) \<notin> set (map rgb_of (img_data stripes))"
  by code_simp

text \<open>
  The claim as stated fails on a larger image, for the same reason as the claim on the
  pixel colours: the filter looks at the thumbnail. In the row \<open>pale_row\<close> every pixel is
  near-white, yet the LANCZOS filter undershoots next to the four darker pixels, to
  (239, 239, 239), which is counted and returned in place of the light gray.
\<close>

theorem dominant_color_undershoot_counterexample:
  "\<not> list_ex counted (img_data pale_row) \<and>
   dominant_color lanczos_halve pale_row = Inr (239, 239, 239)"
  by code_simp

text \<open>
  Claim C7, as amended. When no pixel that the filter looks at survives it, each having
  alpha below 10 or all three channels above 240, \<open>dominant_color\<close> raises nothing and
  returns the light gray (245, 245, 245). The filter looks at the pixels of the thumbnail;
  for an image of at most 64 by 64 pixels these are the pixels of the image itself, which
  is the second part.
\<close>

theorem dominant_color_fallback:
  "((\<forall>p \<in> set (img_data (thumbnail K im)). \<not> counted p) \<longrightarrow>
      dominant_color K im = Inr (245, 245, 245)) \<and>
   (img_w im \<le> 64 \<and> img_h im \<le> 64 \<and> (\<forall>p \<in> set (img_data im). \<not> counted p) \<longrightarrow>
      dominant_color K im = Inr (245, 245, 245))"
proof -
  have "dominant_color K im = Inr (245, 245, 245)"
    if "\<forall>p \<in> set (img_data (thumbnail K im)). \<not> counted p"
    using that by (simp add: dominant_color_def Let_def histogram_empty_iff)
  then show ?thesis by (auto simp: thumbnail_fits)
qed

theorem dominant_color_fallback_witness:
  "\<forall>K. dominant_color K blank = Inr (245, 245, 245)"
proof
  fix K
  have "img_w blank \<le> 64 \<and> img_h blank \<le> 64 \<and> (\<forall>p \<in> set (img_data blank). \<not> counted p)"
    by (simp add: blank_def)
  then show "dominant_color K blank = Inr (245, 245, 245)"
    using dominant_color_fallback [of K blank] by blast
qed

section \<open>Properties of slugify\<close>

lemma collapse_space_chars:
  "c \<in> set (collapse_space U s) \<Longrightarrow> c = 95 \<or> (c \<in> set s \<and> \<not> is_space U c)"
proof (induction U s rule: collapse_space.induct)
  case (1 U)
  then show ?case by simp
next
  case (2 U d ds)
  then show ?case
    by (auto split: if_splits dest: set_dropWhileD)
qed

lemma underscore_no_space: "\<not> is_space U 95"
  by (simp add: is_space_def ascii_space_def)

lemma underscore_word: "is_word U 95"
  by (simp add: is_word_def)

lemma brand_chars: "c \<in> set (ustr ''brand'') \<Longrightarrow> c \<in> {98, 114, 97, 110, 100}"
  by (auto simp: ustr_def)

lemma lower_char_cases:
  assumes "c \<in> set (lower U s)"
  shows "(\<exists>i < length s. s ! i < 128 \<and> c = ascii_lower (s ! i)) \<or>
         (\<exists>i < length s. 128 \<le> s ! i \<and> c \<in> set (u_lower U s i))"
proof -
  from assms obtain i where i: "i < length s"
    and c: "c \<in> set (if s ! i < 128 then [ascii_lower (s ! i)] else u_lower U s i)"
    by (auto simp: lower_def)
  show ?thesis
  proof (cases "s ! i < 128")
    case True
    with i c show ?thesis by auto
  next
    case False
    with i c show ?thesis by (auto simp: not_less)
  qed
qed

lemma ascii_lower_range: "c < 128 \<Longrightarrow> ascii_lower c < 128 \<and> \<not> (65 \<le> ascii_lower c \<and> ascii_lower c \<le> 90)"
  by (simp add: ascii_lower_def)

lemma lower_ascii_chars:
  assumes "\<forall>c \<in> set s. c < 128" "c \<in> set (lower U s)"
  shows "c < 128 \<and> \<not> (65 \<le> c \<and> c \<le> 90)"
  using lower_char_cases [OF assms(2)]
proof
  assume "\<exists>i < length s. s ! i < 128 \<and> c = ascii_lower (s ! i)"
  then show ?thesis using ascii_lower_range by blast
next
  assume "\<exists>i < length s. 128 \<le> s ! i \<and> c \<in> set (u_lower U s i)"
  then obtain i where "i < length s" "128 \<le> s ! i" by blast
  with assms(1) show ?thesis by (metis nth_mem not_less)
qed

text \<open>A capital A to Z in a lowered string can only be the database's own doing.\<close>

lemma lower_capital_origin:
  assumes "c \<in> set (lower U s)" "65 \<le> c" "c \<le> 90"
  shows "\<exists>i < length s. 128 \<le> s ! i \<and> c \<in> set (u_lower U s i)"
  using lower_char_cases [OF assms(1)]
proof
  assume "\<exists>i < length s. s ! i < 128 \<and> c = ascii_lower (s ! i)"
  then have False using assms(2,3) ascii_lower_range by blast
  then show ?thesis ..
next
  assume "\<exists>i < length s. 128 \<le> s ! i \<and> c \<in> set (u_lower U s i)"
  then show ?thesis .
qed

lemma lower_ascii:
  assumes "\<forall>c \<in> set s. c < 128"
  shows "lower U s = map ascii_lower s"
proof -
  have "map (\<lambda>i. if s ! i < 128 then [ascii_lower (s ! i)] else u_lower U s i) [0..<length s] =
        map (\<lambda>i. [ascii_lower (s ! i)]) [0..<length s]"
    by (rule map_cong) (use assms in auto)
  then have "lower U s = concat (map (\<lambda>i. [ascii_lower (s ! i)]) [0..<length s])"
    unfolding lower_def by (rule arg_cong)
  also have "\<dots> = map (\<lambda>i. ascii_lower (s ! i)) [0..<length s]"
    by (rule concat_map_singleton)
  also have "\<dots> = map ascii_lower (map (\<lambda>i. s ! i) [0..<length s])"
    by (simp add: comp_def)
  also have "\<dots> = map ascii_lower s" by (simp only: map_nth)
  finally show ?thesis .
qed

lemma strip_subset: "set (strip U s) \<subseteq> set s"
proof -
  have "set (strip U s) \<subseteq> set (dropWhile (is_space U) s)"
    unfolding strip_def using set_dropWhileD by fastforce
  also have "\<dots> \<subseteq> set s" using set_dropWhileD by fastforce
  finally show ?thesis .
qed

lemma slug_chars:
  assumes "c \<in> set (slugify U name)"
  shows "\<not> is_space U c \<and> (is_word U c \<or> c = 45) \<and>
         (c \<in> set (lower U (strip U name)) \<or> c = 95 \<or> c \<in> set (ustr ''brand''))"
proof (cases "collapse_space U (drop_other U (lower U (strip U name))) = []")
  case True
  then have b: "c \<in> set (ustr ''brand'')" using assms by (simp add: slugify_def Let_def)
  then have "c \<in> {98, 114, 97, 110, 100}" by (rule brand_chars)
  then have "\<not> is_space U c \<and> (is_word U c \<or> c = 45)"
    by (auto simp: is_space_def ascii_space_def is_word_def ascii_alnum_def)
  with b show ?thesis by simp
next
  case False
  then have "c \<in> set (collapse_space U (drop_other U (lower U (strip U name))))"
    using assms by (simp add: slugify_def Let_def)
  then have "c = 95 \<or> (c \<in> set (drop_other U (lower U (strip U name))) \<and> \<not> is_space U c)"
    by (rule collapse_space_chars)
  then show ?thesis
    by (auto simp: underscore_no_space underscore_word drop_other_def)
qed

lemma slug_capital_origin:
  assumes "c \<in> set (slugify U name)" "65 \<le> c" "c \<le> 90"
  shows "\<exists>i < length (strip U name).
           128 \<le> strip U name ! i \<and> c \<in> set (u_lower U (strip U name) i)"
proof -
  have "c \<in> set (lower U (strip U name)) \<or> c = 95 \<or> c \<in> set (ustr ''brand'')"
    using slug_chars [OF assms(1)] by simp
  moreover have "c \<noteq> 95" using assms(3) by simp
  moreover have "c \<notin> set (ustr ''brand'')" using assms(3) brand_chars by fastforce
  ultimately have "c \<in> set (lower U (strip U name))" by simp
  then show ?thesis using assms(2,3) by (rule lower_capital_origin)
qed

lemma slug_ascii_chars:
  assumes "\<forall>c \<in> set name. c < 128" "c \<in> set (slugify U name)"
  shows "(97 \<le> c \<and> c \<le> 122) \<or> (48 \<le> c \<and> c \<le> 57) \<or> c = 95 \<or> c = 45"
proof (cases "collapse_space U (drop_other U (lower U (strip U name))) = []")
  case True
  then have "c \<in> set (ustr ''brand'')" using assms by (simp add: slugify_def Let_def)
  then have "c \<in> {98, 114, 97, 110, 100}" by (rule brand_chars)
  then show ?thesis by auto
next
  case False
  then have "c \<in> set (collapse_space U (drop_other U (lower U (strip U name))))"
    using assms by (simp add: slugify_def Let_def)
  then have "c = 95 \<or> (c \<in> set (drop_other U (lower U (strip U name))) \<and> \<not> is_space U c)"
    by (rule collapse_space_chars)
  then show ?thesis
  proof
    assume "c = 95"
    then show ?thesis by simp
  next
    assume c: "c \<in> set (drop_other U (lower U (strip U name))) \<and> \<not> is_space U c"
    then have w: "is_word U c \<or> c = 45" and l: "c \<in> set (lower U (strip U name))"
      by (auto simp: drop_other_def)
    have "\<forall>c \<in> set (strip U name). c < 128" using assms(1) strip_subset by blast
    then have "c < 128 \<and> \<not> (65 \<le> c \<and> c \<le> 90)" using l by (rule lower_ascii_chars)
    with w show ?thesis by (auto simp: is_word_def ascii_alnum_def)
  qed
qed

text \<open>
  Claim C2, as amended. For every brand name the slug is not empty and holds no white
  space; each of its characters is a word character (a letter, a digit or an underscore)
  or a hyphen, and it is a character of the lower-cased name, an underscore put for white
  space, or a letter of the placeholder \<open>brand\<close>. The letters A to Z are lowered in every
  name: a capital A to Z in the slug could only be what the Unicode database itself puts
  for a character beyond ASCII, so there is none when the database lowers no such
  character to a capital. For an ASCII name the slug holds only the letters a to z, the
  digits, the underscore and the hyphen. The slug is a function of the name alone, so a
  repeated call returns the same slug.
\<close>

theorem slugify_shape:
  "slugify U name \<noteq> [] \<and>
   (\<forall>c \<in> set (slugify U name).
      \<not> is_space U c \<and> (is_word U c \<or> c = 45) \<and>
      (c \<in> set (lower U (strip U name)) \<or> c = 95 \<or> c \<in> set (ustr ''brand''))) \<and>
   (\<forall>c \<in> set (slugify U name). 65 \<le> c \<and> c \<le> 90 \<longrightarrow>
      (\<exists>i < length (strip U name).
         128 \<le> strip U name ! i \<and> c \<in> set (u_lower U (strip U name) i))) \<and>
   ((\<forall>s i. i < length s \<and> 128 \<le> s ! i \<longrightarrow> (\<forall>d \<in> set (u_lower U s i). \<not> (65 \<le> d \<and> d \<le> 90))) \<longrightarrow>
      (\<forall>c \<in> set (slugify U name). \<not> (65 \<le> c \<and> c \<le> 90))) \<and>
   ((\<forall>c \<in> set name. c < 128) \<longrightarrow>
      (\<forall>c \<in> set (slugify U name).
         (97 \<le> c \<and> c \<le> 122) \<or> (48 \<le> c \<and> c \<le> 57) \<or> c = 95 \<or> c = 45))"
proof (intro conjI ballI impI)
  show "slugify U name \<noteq> []" by (simp add: slugify_def Let_def ustr_def)
next
  fix c assume "c \<in> set (slugify U name)"
  then show "\<not> is_space U c" "is_word U c \<or> c = 45"
    "c \<in> set (lower U (strip U name)) \<or> c = 95 \<or> c \<in> set (ustr ''brand'')"
    using slug_chars by blast+
next
  fix c assume "c \<in> set (slugify U name)" "65 \<le> c \<and> c \<le> 90"
  then show "\<exists>i < length (strip U name).
      128 \<le> strip U name ! i \<and> c \<in> set (u_lower U (strip U name) i)"
    using slug_capital_origin by blast
next
  fix c
  assume db: "\<forall>s i. i < length s \<and> 128 \<le> s ! i \<longrightarrow> (\<forall>d \<in> set (u_lower U s i). \<not> (65 \<le> d \<and> d \<le> 90))"
    and c: "c \<in> set (slugify U name)"
  show "\<not> (65 \<le> c \<and> c \<le> 90)"
  proof
    assume cap: "65 \<le> c \<and> c \<le> 90"
    then obtain i where "i < length (strip U name)" "128 \<le> strip U name ! i"
      "c \<in> set (u_lower U (strip U name) i)"
      using slug_capital_origin [OF c] by blast
    with db cap show False by blast
  qed
next
  fix c assume "\<forall>c \<in> set name. c < 128" "c \<in> set (slugify U name)"
  then show "(97 \<le> c \<and> c \<le> 122) \<or> (48 \<le> c \<and> c \<le> 57) \<or> c = 95 \<or> c = 45"
    by (rule slug_ascii_chars)
qed

lemma symbols_db_lowers:
  "\<forall>s i. i < length s \<and> 128 \<le> s ! i \<longrightarrow>
     (\<forall>d \<in> set (u_lower symbols_db s i). \<not> (65 \<le> d \<and> d \<le> 90))"
  by (simp add: symbols_db_def)

theorem slugify_shape_witness:
  "slugify symbols_db coca_cola \<noteq> [] \<and>
   list_all (\<lambda>c. \<not> is_space symbols_db c \<and> (is_word symbols_db c \<or> c = 45) \<and>
      (c \<in> set (lower symbols_db (strip symbols_db coca_cola)) \<or> c = 95 \<or>
       c \<in> set (ustr ''brand''))) (slugify symbols_db coca_cola) \<and>
   list_all (\<lambda>c. \<not> (65 \<le> c \<and> c \<le> 90)) (slugify symbols_db coca_cola) \<and>
   list_all (\<lambda>c. (97 \<le> c \<and> c \<le> 122) \<or> (48 \<le> c \<and> c \<le> 57) \<or> c = 95 \<or> c = 45)
     (slugify symbols_db (ustr ''& Other Stories''))"
proof -
  have ascii: "\<forall>c \<in> set (ustr ''& Other Stories''). c < 128" by (simp add: ustr_def)
  have a: "list_all (\<lambda>c. (97 \<le> c \<and> c \<le> 122) \<or> (48 \<le> c \<and> c \<le> 57) \<or> c = 95 \<or> c = 45)
     (slugify symbols_db (ustr ''& Other Stories''))"
    using ascii slugify_shape [of symbols_db "ustr ''& Other Stories''"]
    unfolding list_all_iff by blast
  have b: "slugify symbols_db coca_cola \<noteq> [] \<and>
   list_all (\<lambda>c. \<not> is_space symbols_db c \<and> (is_word symbols_db c \<or> c = 45) \<and>
      (c \<in> set (lower symbols_db (strip symbols_db coca_cola)) \<or> c = 95 \<or>
       c \<in> set (ustr ''brand''))) (slugify symbols_db coca_cola) \<and>
   list_all (\<lambda>c. \<not> (65 \<le> c \<and> c \<le> 90)) (slugify symbols_db coca_cola)"
    using symbols_db_lowers slugify_shape [of symbols_db coca_cola]
    unfolding list_all_iff by blast
  from a b show ?thesis by simp
qed

text \<open>
  The claim as stated fails on its own example: the hyphen of the name stays in the slug.
  A name that starts with a symbol and a blank gives a slug that starts with an underscore.
\<close>

theorem slugify_hyphen_counterexample:
  "slugify symbols_db coca_cola = ustr ''coca-cola_lietuva'' \<and>
   \<not> slug_as_specified (slugify symbols_db coca_cola) \<and>
   slugify symbols_db (ustr ''& Other Stories'') = ustr ''_other_stories'' \<and>
   \<not> slug_as_specified (slugify symbols_db (ustr ''& Other Stories''))"
  by code_simp

section \<open>Properties of make_card\<close>

lemma fit_red_logo:
  "fit_logo R red_logo 600 card_max_ratio =
     Inr \<lparr>img_w = 372, img_h = 372, img_data = R red_logo 372 372\<rparr>"
proof -
  have "fit_logo_size (100, 100) 600 card_max_ratio = Inr (372, 372)" by code_simp
  then show ?thesis by (simp add: fit_logo_def resize_def red_logo_def)
qed

text \<open>
  Claim C1. On the 100 by 100 solid red logo with background (255, 0, 0), canvas 600 and
  radius 40, \<open>make_card\<close> fits the logo to 372 by 372 and then raises \<open>TypeError\<close>:
  \<open>ImageStat.Stat\<close> is handed the tuple \<open>logo.split()[0:3]\<close>, neither an image nor a list.
  The contrast is never computed and no card is composed, whatever the library's filters
  return.
\<close>

theorem make_card_red_logo_raises:
  "make_card L red_logo (Some (255, 0, 0)) 600 40 = Inl TypeError"
  by (simp add: make_card_def new_image_def rounded_mask_def fit_red_logo Let_def)

text \<open>
  The steps the scenario expects around the failing call do come out as expected: the
  fitted size is 372 by 372, as above, and red against red has contrast 1.0, below 2.5.
\<close>

lemma contrast_red_red:
  "contrast_ratio P (255, 0, 0) (255, 0, 0) = Inr 1 \<and> (1 :: double) < lit (25 / 10)"
  by code_simp

text \<open>The failure is the same for every logo and background: \<open>make_card\<close> never returns a card.\<close>

lemma make_card_never_returns: "\<exists>e. make_card L logo_img bg_opt canvas radius = Inl e"
  by (auto simp: make_card_def Let_def split: sum.splits option.splits)

section \<open>Properties of main\<close>

text \<open>
  Claim C6. When the table lacks any of the four expected columns, the run creates the
  output directory, prints the list of all missing column names once, in the order brand
  name, Brandfetch, Clearbit, official site, and exits with status 1. It makes no request,
  renders no card and saves no image file.
\<close>

theorem missing_columns_fatal:
  assumes "\<exists>c \<in> set expected_columns. c \<notin> set (df_columns df)"
  shows "main W A df =
     \<lparr>trace = [Makedirs (arg_outdir A),
                Print_missing (filter (\<lambda>c. c \<notin> set (df_columns df)) expected_columns)],
      status = Exited 1\<rparr>"
proof -
  have "filter (\<lambda>c. c \<notin> set (df_columns df)) expected_columns \<noteq> []"
    using assms by (simp add: filter_empty_conv)
  then show ?thesis by (simp add: main_def Let_def)
qed

lemma columns_distinct: "distinct expected_columns"
  by (simp add: expected_columns_def name_col_def bf_col_def cb_col_def site_col_def ustr_def)

theorem missing_columns_fatal_witness:
  "\<forall>W A. main W A no_site_table =
     \<lparr>trace = [Makedirs (arg_outdir A), Print_missing [site_col]], status = Exited 1\<rparr>"
proof (intro allI)
  fix W A
  have m: "filter (\<lambda>c. c \<notin> set (df_columns no_site_table)) expected_columns = [site_col]"
    using columns_distinct by (auto simp: expected_columns_def no_site_table_def)
  then have "\<exists>c \<in> set expected_columns. c \<notin> set (df_columns no_site_table)"
    by (metis filter_empty_conv list.distinct(1))
  then show "main W A no_site_table =
     \<lparr>trace = [Makedirs (arg_outdir A), Print_missing [site_col]], status = Exited 1\<rparr>"
    using missing_columns_fatal [of no_site_table W A] by (simp only: m)
qed

text \<open>With all four columns the run goes on to the requests, here with every one failing.\<close>

lemma full_table_requests:
  assumes "w_fetch W = (\<lambda>u. [])"
  shows "trace (main W A full_table) =
     [Makedirs (arg_outdir A),
      Request (ustr ''https://cdn.example/acme.png''),
      Request (ustr ''nan''),
      Request (ustr ''https://acme.example/favicon.ico''),
      Print_skip (ustr ''Acme''),
      Write_zip (path_join (w_cwd W) (arg_zipname A)) [],
      Print_summary 0 (path_join (w_cwd W) (arg_zipname A))]"
proof -
  have cols: "filter (\<lambda>c. c \<notin> set (df_columns full_table)) expected_columns = []"
    by (auto simp: expected_columns_def full_table_def)
  have d: "name_col \<noteq> site_col" "name_col \<noteq> bf_col" "name_col \<noteq> cb_col"
    "site_col \<noteq> bf_col" "site_col \<noteq> cb_col" "bf_col \<noteq> cb_col"
    using columns_distinct by (auto simp: expected_columns_def)
  have urls: "candidate_urls (w_unicode W)
       (map_of (zip (df_columns full_table) (hd (df_rows full_table)))) =
     [ustr ''https://cdn.example/acme.png'', ustr ''nan'', ustr ''https://acme.example/favicon.ico'']"
    using d
    by (simp add: candidate_urls_def url_cell_def full_table_def Let_def strip_def is_space_def
        ascii_space_def ustr_def rstrip_slash_def strip_slash_def)
  have brand: "strip (w_unicode W) (ustr ''Acme'') = ustr ''Acme''"
    "lower (w_unicode W) (ustr ''Acme'') = ustr ''acme''"
    by (simp_all add: strip_def lower_ascii is_space_def ascii_space_def ascii_lower_def ustr_def)
  have tr: "try_urls W [ustr ''https://cdn.example/acme.png'', ustr ''nan'',
        ustr ''https://acme.example/favicon.ico''] =
     ([Request (ustr ''https://cdn.example/acme.png''), Request (ustr ''nan''),
       Request (ustr ''https://acme.example/favicon.ico'')], None)"
    by (simp add: assms)
  have rows: "run_rows W A (df_columns full_table) (df_rows full_table) =
     ([Request (ustr ''https://cdn.example/acme.png''), Request (ustr ''nan''),
       Request (ustr ''https://acme.example/favicon.ico''), Print_skip (ustr ''Acme'')], [], None)"
    using urls brand tr
    by (simp add: full_table_def process_brand_def Let_def ustr_def)
  show ?thesis
    by (simp add: main_def cols rows Let_def)
qed

end
